theory Spec2Isabelle
  imports Main "HOL-Library.Sublist" "HOL-Library.Product_Lexorder"
begin

section \<open>NorrisBot: a shallow embedding of lib/norrisbot.js\<close>

text \<open>
  The bot is a JavaScript object built on the \<^verbatim>\<open>slackbots\<close> client and a SQLite file.
  The embedding keeps the source's method names without their leading underscore
  (\<^verbatim>\<open>_onMessage\<close> is \<open>onMessage\<close>), since an Isabelle name starts with a letter.
  Field names carry the name of their object as a prefix (\<^verbatim>\<open>message.text\<close> is
  \<open>msg_text\<close>), as record fields are global constants.
\<close>

subsection \<open>JavaScript values and strings\<close>

text \<open>
  A field of a real-time event is any JSON value or missing. Numbers are kept as integers
  and objects as one opaque value: the source only compares fields with strings, tests
  their truthiness and calls \<^verbatim>\<open>toLowerCase\<close> on them.
\<close>

datatype jsval = JUndefined | JNull | JBool bool | JNum int | JStr string | JObject

datatype error = TypeError string | ProcessExit int

text \<open>\<^verbatim>\<open>Boolean(v)\<close>.\<close>

fun truthy :: "jsval \<Rightarrow> bool" where
  "truthy JUndefined = False"
| "truthy JNull = False"
| "truthy (JBool b) = b"
| "truthy (JNum n) = (n \<noteq> 0)"
| "truthy (JStr s) = (s \<noteq> [])"
| "truthy JObject = True"

text \<open>\<^verbatim>\<open>v === 'literal'\<close>: strict equality with a string.\<close>

fun strict_eq_str :: "jsval \<Rightarrow> string \<Rightarrow> bool" where
  "strict_eq_str (JStr s) t = (s = t)"
| "strict_eq_str _ t = False"

text \<open>
  \<^verbatim>\<open>String.prototype.toLowerCase\<close> on ASCII text: the letters A to Z are mapped to a to z
  and every other character is kept. Strings of the model are ASCII strings.
\<close>

definition toLowerCase_char :: "char \<Rightarrow> char" where
  "toLowerCase_char c =
     (case map_of (zip ''ABCDEFGHIJKLMNOPQRSTUVWXYZ'' ''abcdefghijklmnopqrstuvwxyz'') c of
        Some l \<Rightarrow> l
      | None \<Rightarrow> c)"

definition toLowerCase :: "string \<Rightarrow> string" where
  "toLowerCase s = map toLowerCase_char s"

text \<open>
  \<^verbatim>\<open>s.indexOf(sub)\<close>: the first position at which \<open>sub\<close> occurs in \<open>s\<close>, or \<open>-1\<close>.
\<close>

fun indexOf_from :: "string \<Rightarrow> string \<Rightarrow> nat \<Rightarrow> int" where
  "indexOf_from [] sub i = (if sub = [] then int i else - 1)"
| "indexOf_from (c # cs) sub i =
     (if prefix sub (c # cs) then int i else indexOf_from cs sub (Suc i))"

definition indexOf :: "string \<Rightarrow> string \<Rightarrow> int" where
  "indexOf s sub = indexOf_from s sub 0"

subsection \<open>The objects of the transport and of the bot\<close>

text \<open>An entry of \<^verbatim>\<open>this.users\<close> and of \<^verbatim>\<open>this.channels\<close>, as the transport loads them.\<close>

record slack_user =
  user_id :: string
  user_name :: string

record slack_channel =
  channel_id :: string
  channel_name :: string

text \<open>The real-time event handed to \<^verbatim>\<open>_onMessage\<close>.\<close>

record message =
  msg_type :: jsval
  msg_text :: jsval
  msg_channel :: jsval
  msg_user :: jsval

text \<open>
  The bot object: \<^verbatim>\<open>this.name\<close>, \<^verbatim>\<open>this.dbPath\<close>, the roster \<^verbatim>\<open>this.users\<close> and
  \<^verbatim>\<open>this.channels\<close>, \<^verbatim>\<open>this.user\<close> (\<open>None\<close> is \<^verbatim>\<open>null\<close> or \<^verbatim>\<open>undefined\<close>) and
  \<^verbatim>\<open>this.db\<close> (\<open>None\<close> is \<^verbatim>\<open>null\<close>, \<open>Some p\<close> the database opened at path \<open>p\<close>).
\<close>

record bot =
  name :: string
  dbPath :: string
  users :: "slack_user list"
  channels :: "slack_channel list"
  user :: "slack_user option"
  db :: "string option"

text \<open>
  The settings object of \<^verbatim>\<open>bin/bot.js\<close>: each entry is an environment variable, unset
  (\<open>None\<close>) or a string.
\<close>

record settings =
  settings_token :: "string option"
  settings_dbPath :: "string option"
  settings_name :: "string option"

text \<open>\<^verbatim>\<open>x || d\<close> on a string or \<^verbatim>\<open>undefined\<close>: the empty string is falsy.\<close>

fun or_default :: "string option \<Rightarrow> string \<Rightarrow> string" where
  "or_default None d = d"
| "or_default (Some s) d = (if s = [] then d else s)"

text \<open>
  The constructor followed by \<^verbatim>\<open>run\<close>, whose call of the transport's constructor copies
  \<^verbatim>\<open>settings.name\<close> to \<^verbatim>\<open>this.name\<close>. \<open>cwd_db\<close> is
  \<^verbatim>\<open>path.resolve(process.cwd(), 'data', 'norrisbot.db')\<close>; the roster is what the transport
  has loaded when it signals \<^verbatim>\<open>start\<close>.
\<close>

definition Constructor :: "string \<Rightarrow> slack_user list \<Rightarrow> slack_channel list \<Rightarrow> settings \<Rightarrow> bot" where
  "Constructor cwd_db us cs s =
     \<lparr> name = or_default (settings_name s) ''norrisbot'',
       dbPath = or_default (settings_dbPath s) cwd_db,
       users = us,
       channels = cs,
       user = None,
       db = None \<rparr>"

subsection \<open>The message filter\<close>

definition isChatMessage :: "message \<Rightarrow> bool" where
  "isChatMessage m = (strict_eq_str (msg_type m) ''message'' \<and> truthy (msg_text m))"

text \<open>
  \<^verbatim>\<open>typeof message.channel === 'string' && message.channel[0] === 'C'\<close>; the first
  character of the empty string is \<^verbatim>\<open>undefined\<close>.
\<close>

fun isChannelConversation_val :: "jsval \<Rightarrow> bool" where
  "isChannelConversation_val (JStr []) = False"
| "isChannelConversation_val (JStr (c # cs)) = (c = CHR ''C'')"
| "isChannelConversation_val _ = False"

definition isChannelConversation :: "message \<Rightarrow> bool" where
  "isChannelConversation m = isChannelConversation_val (msg_channel m)"

text \<open>
  \<^verbatim>\<open>message.user === this.user.id\<close>: reading \<^verbatim>\<open>id\<close> of an unresolved \<^verbatim>\<open>this.user\<close>
  throws.
\<close>

definition isFromNorrisBot :: "bot \<Rightarrow> message \<Rightarrow> error + bool" where
  "isFromNorrisBot self m =
     (case user self of
        None \<Rightarrow> Inl (TypeError ''Cannot read property id of undefined'')
      | Some u \<Rightarrow> Inr (strict_eq_str (msg_user m) (user_id u)))"

text \<open>
  \<^verbatim>\<open>message.text.toLowerCase()\<close>: a string is lowered, anything else has no such method.
\<close>

fun text_toLowerCase :: "jsval \<Rightarrow> error + string" where
  "text_toLowerCase (JStr s) = Inr (toLowerCase s)"
| "text_toLowerCase JUndefined = Inl (TypeError ''Cannot read property toLowerCase of undefined'')"
| "text_toLowerCase JNull = Inl (TypeError ''Cannot read property toLowerCase of null'')"
| "text_toLowerCase _ = Inl (TypeError ''message.text.toLowerCase is not a function'')"

definition isMentioningChuckNorris :: "bot \<Rightarrow> message \<Rightarrow> error + bool" where
  "isMentioningChuckNorris self m =
     (case text_toLowerCase (msg_text m) of
        Inl e \<Rightarrow> Inl e
      | Inr low \<Rightarrow> Inr (indexOf low ''chuck norris'' > - 1 \<or> indexOf low (name self) > - 1))"

text \<open>
  The condition of the \<^verbatim>\<open>if\<close> in \<^verbatim>\<open>_onMessage\<close>: the four calls joined by \<^verbatim>\<open>&&\<close>, left
  to right, each evaluated only when the ones before it hold.
\<close>

definition onMessage_condition :: "bot \<Rightarrow> message \<Rightarrow> error + bool" where
  "onMessage_condition self m =
     (if isChatMessage m then
        if isChannelConversation m then
          (case isFromNorrisBot self m of
             Inl e \<Rightarrow> Inl e
           | Inr fromBot \<Rightarrow> if fromBot then Inr False else isMentioningChuckNorris self m)
        else Inr False
      else Inr False)"

subsection \<open>The SQLite file and the outside world\<close>

text \<open>
  The two tables of the database file: \<^verbatim>\<open>info(name, val)\<close> and
  \<^verbatim>\<open>jokes(id, joke, used)\<close>, each a list of rows in table order. The counter is an
  integer column of SQLite; the model reads it as an integer below the 64-bit limit.
\<close>

record joke_row =
  joke_id :: int
  joke :: string
  used :: int

record database =
  info :: "(string \<times> string) list"
  jokes :: "joke_row list"

text \<open>The statements the bot hands to \<^verbatim>\<open>db.run\<close>, each with its bound parameter.\<close>

datatype statement =
    InsertLastrun string
  | UpdateLastrun string
  | UpdateJokeUsed int

text \<open>What the bot does to the outside: a post through the transport, a line on the
  error console, a statement run on the database.\<close>

datatype effect =
    PostMessageToChannel string string bool
  | ConsoleError "string list"
  | DbRun statement

text \<open>
  The world the bot runs in: \<^verbatim>\<open>fs.existsSync\<close>, the content of the database file, the
  error a \<^verbatim>\<open>db.get\<close> delivers to its callback (if any), the value of
  \<^verbatim>\<open>(new Date()).toJSON()\<close>, the value \<^verbatim>\<open>RANDOM()\<close> takes on each row of a query (by the
  row's position), and the effects so far, oldest first.
\<close>

record world =
  existsSync :: "string \<Rightarrow> bool"
  store :: database
  get_error :: "string option"
  currentTime :: string
  random :: "nat \<Rightarrow> int"
  trace :: "effect list"

definition emit :: "effect \<Rightarrow> world \<Rightarrow> world" where
  "emit e w = w\<lparr>trace := trace w @ [e]\<rparr>"

text \<open>
  \<^verbatim>\<open>INSERT INTO info(name, val) VALUES("lastrun", ?)\<close>,
  \<^verbatim>\<open>UPDATE info SET val = ? WHERE name = "lastrun"\<close> and
  \<^verbatim>\<open>UPDATE jokes SET used = used + 1 WHERE id = ?\<close>.
\<close>

fun exec :: "statement \<Rightarrow> database \<Rightarrow> database" where
  "exec (InsertLastrun t) d = d\<lparr>info := info d @ [(''lastrun'', t)]\<rparr>"
| "exec (UpdateLastrun t) d =
     d\<lparr>info := map (\<lambda>(n, v). if n = ''lastrun'' then (n, t) else (n, v)) (info d)\<rparr>"
| "exec (UpdateJokeUsed i) d =
     d\<lparr>jokes := map (\<lambda>j. if joke_id j = i then j\<lparr>used := used j + 1\<rparr> else j) (jokes d)\<rparr>"

text \<open>\<^verbatim>\<open>db.run(sql, param)\<close>: the statement is run and recorded.\<close>

definition db_run :: "statement \<Rightarrow> world \<Rightarrow> world" where
  "db_run st w = emit (DbRun st) (w\<lparr>store := exec st (store w)\<rparr>)"

text \<open>\<^verbatim>\<open>SELECT val FROM info WHERE name = "lastrun" LIMIT 1\<close>: the first such row, if any.\<close>

definition select_lastrun :: "(string \<times> string) list \<Rightarrow> string option" where
  "select_lastrun rows =
     (case filter (\<lambda>(n, v). n = ''lastrun'') rows of [] \<Rightarrow> None | (n, v) # _ \<Rightarrow> Some v)"

text \<open>
  \<^verbatim>\<open>SELECT id, joke FROM jokes ORDER BY used ASC, RANDOM() LIMIT 1\<close>: the rows are sorted
  by their counter first and by the random value drawn for each row second; the first row
  of the sorted table is the result, \<^verbatim>\<open>undefined\<close> (\<open>None\<close>) when the table is empty.
\<close>

definition order_by_used_random :: "joke_row list \<Rightarrow> (nat \<Rightarrow> int) \<Rightarrow> joke_row list" where
  "order_by_used_random js rnd =
     map snd (sort_key (\<lambda>(k, j). (used j, rnd k)) (enumerate 0 js))"

definition select_least_used :: "joke_row list \<Rightarrow> (nat \<Rightarrow> int) \<Rightarrow> joke_row option" where
  "select_least_used js rnd =
     (case order_by_used_random js rnd of [] \<Rightarrow> None | j # _ \<Rightarrow> Some j)"

definition select_id_joke :: "joke_row list \<Rightarrow> (nat \<Rightarrow> int) \<Rightarrow> (int \<times> string) option" where
  "select_id_joke js rnd = map_option (\<lambda>j. (joke_id j, joke j)) (select_least_used js rnd)"

subsection \<open>Start-up\<close>

text \<open>\<^verbatim>\<open>this.users.filter(...)[0]\<close>: the first entry of that name, \<^verbatim>\<open>undefined\<close> if none.\<close>

definition loadBotUser :: "bot \<Rightarrow> bot" where
  "loadBotUser self =
     self\<lparr>user :=
       (case filter (\<lambda>u. user_name u = name self) (users self) of
          [] \<Rightarrow> None
        | u # _ \<Rightarrow> Some u)\<rparr>"

text \<open>\<^verbatim>\<open>process.exit(1)\<close> ends the process: the result is the error \<open>ProcessExit 1\<close>.\<close>

definition connectDb :: "bot \<Rightarrow> world \<Rightarrow> (error + bot) \<times> world" where
  "connectDb self w =
     (if existsSync w (dbPath self) then (Inr (self\<lparr>db := Some (dbPath self)\<rparr>), w)
      else (Inl (ProcessExit 1),
            emit (ConsoleError [''Database path '' @ [CHR 0x22] @ dbPath self @ [CHR 0x22] @
                    '' does not exist or it'' @ [CHR 0x27] @ ''s not ReadableStream.'']) w))"

definition welcome_text :: "string \<Rightarrow> string" where
  "welcome_text n =
     ''Hi guys, roundhouse-kick anyone?'' @ [CHR 0x0A] @
     '' I can tell jokes, but very honest ones. Just say '' @ [CHR 0x60] @ ''Chuck Norris'' @
     [CHR 0x60] @ '' or '' @ [CHR 0x60] @ n @ [CHR 0x60] @ '' to invoke me!''"

text \<open>\<^verbatim>\<open>this.channels[0].name\<close> throws when the bot is in no channel.\<close>

definition welcomeMessage :: "bot \<Rightarrow> world \<Rightarrow> error option \<times> world" where
  "welcomeMessage self w =
     (case channels self of
        [] \<Rightarrow> (Some (TypeError ''Cannot read property name of undefined''), w)
      | c # _ \<Rightarrow> (None, emit (PostMessageToChannel (channel_name c) (welcome_text (name self)) True) w))"

text \<open>
  The callback handed to \<^verbatim>\<open>db.get\<close> runs when the query has completed; the model runs it
  in place. A result is the error thrown, if any, and the world after.
\<close>

definition firstRunCheck :: "bot \<Rightarrow> world \<Rightarrow> error option \<times> world" where
  "firstRunCheck self w =
     (case db self of
        None \<Rightarrow> (Some (TypeError ''Cannot read property get of null''), w)
      | Some _ \<Rightarrow>
          (case get_error w of
             Some err \<Rightarrow> (None, emit (ConsoleError [''DATABASE ERROR:'', err]) w)
           | None \<Rightarrow>
               (case select_lastrun (info (store w)) of
                  None \<Rightarrow>
                    (case welcomeMessage self w of
                       (Some e, w') \<Rightarrow> (Some e, w')
                     | (None, w') \<Rightarrow> (None, db_run (InsertLastrun (currentTime w')) w'))
                | Some _ \<Rightarrow> (None, db_run (UpdateLastrun (currentTime w)) w))))"

definition onStart :: "bot \<Rightarrow> world \<Rightarrow> (error + bot) \<times> world" where
  "onStart self w =
     (case connectDb (loadBotUser self) w of
        (Inl e, w1) \<Rightarrow> (Inl e, w1)
      | (Inr self1, w1) \<Rightarrow>
          (case firstRunCheck self1 w1 of
             (Some e, w2) \<Rightarrow> (Inl e, w2)
           | (None, w2) \<Rightarrow> (Inr self1, w2)))"

subsection \<open>Replying\<close>

definition getChannelById :: "bot \<Rightarrow> jsval \<Rightarrow> slack_channel option" where
  "getChannelById self channelId =
     (case filter (\<lambda>item. strict_eq_str channelId (channel_id item)) (channels self) of
        [] \<Rightarrow> None
      | c # _ \<Rightarrow> Some c)"

text \<open>
  The callback of the query reads \<^verbatim>\<open>channel.name\<close> first and \<^verbatim>\<open>record.joke\<close> second,
  as arguments of the post; either throws on \<^verbatim>\<open>undefined\<close>.
\<close>

definition replyWithRandomJoke :: "bot \<Rightarrow> world \<Rightarrow> message \<Rightarrow> error option \<times> world" where
  "replyWithRandomJoke self w originalMessage =
     (case db self of
        None \<Rightarrow> (Some (TypeError ''Cannot read property get of null''), w)
      | Some _ \<Rightarrow>
          (case get_error w of
             Some err \<Rightarrow> (None, emit (ConsoleError [''DATABASE ERROR:'', err]) w)
           | None \<Rightarrow>
               (case getChannelById self (msg_channel originalMessage) of
                  None \<Rightarrow> (Some (TypeError ''Cannot read property name of undefined''), w)
                | Some channel \<Rightarrow>
                    (case select_id_joke (jokes (store w)) (random w) of
                       None \<Rightarrow> (Some (TypeError ''Cannot read property joke of undefined''), w)
                     | Some (rid, rjoke) \<Rightarrow>
                         (None, db_run (UpdateJokeUsed rid)
                                  (emit (PostMessageToChannel (channel_name channel) rjoke True) w))))))"

definition onMessage :: "bot \<Rightarrow> world \<Rightarrow> message \<Rightarrow> error option \<times> world" where
  "onMessage self w m =
     (case onMessage_condition self m of
        Inl e \<Rightarrow> (Some e, w)
      | Inr c \<Rightarrow> if c then replyWithRandomJoke self w m else (None, w))"

subsection \<open>The four predicates of the filter, read off the event\<close>

text \<open>
  What the specification asks of a qualifying event, stated on the event's fields: its
  kind is \<^verbatim>\<open>message\<close> and its text is a non-empty string; its channel is a string that
  starts with \<^verbatim>\<open>C\<close>; its sender is not the bot's member id; its text mentions the trigger.
  The trigger is the specification's: the text contains, in any letter case, the phrase
  \<^verbatim>\<open>chuck norris\<close> or the bot's configured display name. A text contains a phrase in any
  letter case when it contains it once both are lowered.
\<close>

definition contains_ignoring_case :: "string \<Rightarrow> string \<Rightarrow> bool" where
  "contains_ignoring_case txt phrase = sublist (toLowerCase phrase) (toLowerCase txt)"

definition kind_and_text :: "message \<Rightarrow> bool" where
  "kind_and_text m =
     (msg_type m = JStr ''message'' \<and> (case msg_text m of JStr t \<Rightarrow> t \<noteq> [] | _ \<Rightarrow> False))"

definition public_channel :: "message \<Rightarrow> bool" where
  "public_channel m = (case msg_channel m of JStr (c # cs) \<Rightarrow> c = CHR ''C'' | _ \<Rightarrow> False)"

definition not_self :: "string \<Rightarrow> message \<Rightarrow> bool" where
  "not_self memberId m = (msg_user m \<noteq> JStr memberId)"

definition mentions_trigger :: "string \<Rightarrow> message \<Rightarrow> bool" where
  "mentions_trigger displayName m =
     (case msg_text m of
        JStr t \<Rightarrow>
          contains_ignoring_case t ''chuck norris'' \<or> contains_ignoring_case t displayName
      | _ \<Rightarrow> False)"

subsection \<open>A concrete workspace\<close>

definition example_user :: slack_user where
  "example_user = \<lparr>user_id = ''U000'', user_name = ''norrisbot''\<rparr>"

definition example_channel :: slack_channel where
  "example_channel = \<lparr>channel_id = ''C123'', channel_name = ''general''\<rparr>"

definition example_settings :: settings where
  "example_settings =
     \<lparr>settings_token = Some ''xoxb-token'', settings_dbPath = None, settings_name = None\<rparr>"

text \<open>The bot as constructed, on a roster that lists it and on one that does not.\<close>

definition listed_bot :: bot where
  "listed_bot =
     Constructor ''data/norrisbot.db''
       [\<lparr>user_id = ''U999'', user_name = ''alice''\<rparr>, example_user] [example_channel]
       example_settings"

definition unlisted_bot :: bot where
  "unlisted_bot =
     Constructor ''data/norrisbot.db''
       [\<lparr>user_id = ''U999'', user_name = ''alice''\<rparr>] [example_channel] example_settings"

text \<open>The bot after a start that resolved its identity and opened the database.\<close>

definition example_bot :: bot where
  "example_bot =
     \<lparr> name = ''norrisbot'', dbPath = ''data/norrisbot.db'',
       users = [\<lparr>user_id = ''U999'', user_name = ''alice''\<rparr>, example_user],
       channels = [example_channel],
       user = Some example_user, db = Some ''data/norrisbot.db'' \<rparr>"

definition example_message :: message where
  "example_message =
     \<lparr> msg_type = JStr ''message'', msg_text = JStr ''Tell me about Chuck Norris'',
       msg_channel = JStr ''C123'', msg_user = JStr ''U999'' \<rparr>"

text \<open>
  A bot configured with a capital letter in its name, listed on the roster under that
  name and started, and an event that says the name as it is configured.
\<close>

definition capitalised_user :: slack_user where
  "capitalised_user = \<lparr>user_id = ''U000'', user_name = ''NorrisBot''\<rparr>"

definition capitalised_bot :: bot where
  "capitalised_bot =
     \<lparr> name = ''NorrisBot'', dbPath = ''data/norrisbot.db'',
       users = [\<lparr>user_id = ''U999'', user_name = ''alice''\<rparr>, capitalised_user],
       channels = [example_channel],
       user = Some capitalised_user, db = Some ''data/norrisbot.db'' \<rparr>"

definition capitalised_message :: message where
  "capitalised_message =
     \<lparr> msg_type = JStr ''message'', msg_text = JStr ''Hello NorrisBot'',
       msg_channel = JStr ''C123'', msg_user = JStr ''U999'' \<rparr>"

definition example_jokes :: "joke_row list" where
  "example_jokes =
     [\<lparr>joke_id = 1, joke = ''J1'', used = 0\<rparr>, \<lparr>joke_id = 2, joke = ''J2'', used = 5\<rparr>]"

definition tied_jokes :: "joke_row list" where
  "tied_jokes =
     [\<lparr>joke_id = 1, joke = ''J1'', used = 0\<rparr>, \<lparr>joke_id = 2, joke = ''J2'', used = 5\<rparr>,
      \<lparr>joke_id = 3, joke = ''J3'', used = 0\<rparr>]"

definition example_world :: world where
  "example_world =
     \<lparr> existsSync = (\<lambda>p. p = ''data/norrisbot.db''),
       store = \<lparr>info = [], jokes = example_jokes\<rparr>,
       get_error = None,
       currentTime = ''2016-08-01T12:00:00.000Z'',
       random = (\<lambda>k. 0),
       trace = [] \<rparr>"

text \<open>The same world with no joke in the table, and one whose bot has run before.\<close>

definition jokeless_world :: world where
  "jokeless_world = example_world\<lparr>store := \<lparr>info = [], jokes = []\<rparr>\<rparr>"

definition later_world :: world where
  "later_world =
     example_world\<lparr>store := \<lparr>info = [(''lastrun'', ''2016-07-01T09:30:00.000Z'')],
                                jokes = example_jokes\<rparr>\<rparr>"

section \<open>Properties\<close>

subsection \<open>Strings and strict equality\<close>

lemma indexOf_from_sublist: "(indexOf_from s sub i > - 1) = sublist sub s"
  by (induction s arbitrary: i) (auto simp: sublist_Cons_right)

lemma indexOf_sublist: "(indexOf s sub > - 1) = sublist sub s"
  by (simp add: indexOf_def indexOf_from_sublist)

lemma strict_eq_str_iff: "strict_eq_str v s = (v = JStr s)"
  by (cases v) auto

lemma toLowerCase_example:
  "toLowerCase ''Tell me about Chuck Norris'' = ''tell me about chuck norris''"
  by (simp add: toLowerCase_def toLowerCase_char_def)

lemma toLowerCase_phrase: "toLowerCase ''chuck norris'' = ''chuck norris''"
  by (simp add: toLowerCase_def toLowerCase_char_def)

subsection \<open>The message filter\<close>

lemma isChatMessage_kind_and_text:
  assumes "(\<exists>t. msg_text m = JStr t) \<or> \<not> truthy (msg_text m)"
  shows "isChatMessage m = kind_and_text m"
proof (cases "msg_text m")
  case (JStr t)
  then show ?thesis by (simp add: isChatMessage_def kind_and_text_def strict_eq_str_iff)
qed (use assms in \<open>auto simp: isChatMessage_def kind_and_text_def\<close>)

lemma isChannelConversation_public: "isChannelConversation m = public_channel m"
  unfolding isChannelConversation_def public_channel_def
  by (cases "msg_channel m" rule: isChannelConversation_val.cases) auto


text \<open>
  For a display name without capital letters the source's search is the specification's
  trigger.
\<close>

lemma isMentioningChuckNorris_lowercase_name:
  assumes "msg_text m = JStr t" and "toLowerCase (name self) = name self"
  shows "isMentioningChuckNorris self m =
           Inr (contains_ignoring_case t ''chuck norris'' \<or> contains_ignoring_case t (name self))"
  using assms
  by (simp add: isMentioningChuckNorris_def indexOf_sublist contains_ignoring_case_def
      toLowerCase_phrase)

lemma isMentioningChuckNorris_str:
  assumes "msg_text m = JStr t" and "toLowerCase (name self) = name self"
  shows "isMentioningChuckNorris self m = Inr (mentions_trigger (name self) m)"
  using isMentioningChuckNorris_lowercase_name [OF assms] assms(1)
  by (simp add: mentions_trigger_def)

lemma condition_resolved:
  assumes "user self = Some u" and "(\<exists>t. msg_text m = JStr t) \<or> \<not> truthy (msg_text m)"
    and "toLowerCase (name self) = name self"
  shows "onMessage_condition self m =
           Inr (kind_and_text m \<and> public_channel m \<and> not_self (user_id u) m \<and>
                mentions_trigger (name self) m)"
proof (cases "\<exists>t. msg_text m = JStr t")
  case True
  then obtain t where t: "msg_text m = JStr t" by blast
  have "isChatMessage m = kind_and_text m"
    by (rule isChatMessage_kind_and_text [OF assms(2)])
  then show ?thesis using assms(1) isMentioningChuckNorris_str [OF t assms(3)]
    by (simp add: onMessage_condition_def isChannelConversation_public
        isFromNorrisBot_def strict_eq_str_iff not_self_def)
next
  case False
  then have "\<not> truthy (msg_text m)" using assms(2) by blast
  then have "\<not> isChatMessage m" and "\<not> kind_and_text m"
    using isChatMessage_kind_and_text [OF assms(2)] by (simp_all add: isChatMessage_def)
  then show ?thesis by (simp add: onMessage_condition_def)
qed

lemma example_condition: "onMessage_condition example_bot example_message = Inr True"
  by (simp add: onMessage_condition_def isChatMessage_def isChannelConversation_def
      isFromNorrisBot_def isMentioningChuckNorris_def example_bot_def example_message_def
      example_user_def toLowerCase_example indexOf_def)

lemma example_condition_elsewhere:
  "onMessage_condition example_bot (example_message\<lparr>msg_channel := JStr ''C999''\<rparr>) = Inr True"
  by (simp add: onMessage_condition_def isChatMessage_def isChannelConversation_def
      isFromNorrisBot_def isMentioningChuckNorris_def example_bot_def example_message_def
      example_user_def toLowerCase_example indexOf_def)

text \<open>
  Away from capital letters in the display name the filter is the conjunction of the four
  predicates: with the identity resolved, a display name in lower case and an event whose
  text is a string or falsy, \<^verbatim>\<open>_onMessage\<close> replies exactly when the four hold together,
  and otherwise leaves the world as it was.
\<close>

lemma onMessage_replies_iff_lowercase_name:
  assumes "user self = Some u" and "(\<exists>t. msg_text m = JStr t) \<or> \<not> truthy (msg_text m)"
    and "toLowerCase (name self) = name self"
  shows "onMessage_condition self m =
           Inr (kind_and_text m \<and> public_channel m \<and> not_self (user_id u) m \<and>
                mentions_trigger (name self) m)
         \<and> onMessage self w m =
           (if kind_and_text m \<and> public_channel m \<and> not_self (user_id u) m \<and>
               mentions_trigger (name self) m
            then replyWithRandomJoke self w m else (None, w))"
  unfolding onMessage_def condition_resolved [OF assms] by simp

text \<open>
  The event of the specification, sent by \<^verbatim>\<open>U999\<close> in \<^verbatim>\<open>C123\<close> to the bot \<^verbatim>\<open>U000\<close>
  named \<^verbatim>\<open>norrisbot\<close>, passes the filter and is replied to.
\<close>

lemma specification_event_replied:
  "user example_bot = Some example_user \<and> user_id example_user = ''U000'' \<and>
   name example_bot = ''norrisbot'' \<and>
   onMessage_condition example_bot example_message = Inr True \<and>
   onMessage example_bot example_world example_message =
     replyWithRandomJoke example_bot example_world example_message"
  using onMessage_replies_iff_lowercase_name
    [of example_bot example_user example_message example_world]
  by (simp add: example_bot_def example_message_def example_user_def kind_and_text_def
      public_channel_def not_self_def mentions_trigger_def contains_ignoring_case_def
      toLowerCase_example toLowerCase_phrase sublist_Cons_right)
     (simp add: toLowerCase_def toLowerCase_char_def)

text \<open>
  C1. The filter is to reply exactly when the four predicates hold together: the kind is
  \<^verbatim>\<open>message\<close> with a non-empty text, the channel is a string starting with \<^verbatim>\<open>C\<close>, the
  sender is not the bot's member id, and the text mentions the trigger. For the bot
  \<^verbatim>\<open>U000\<close> configured and listed as \<^verbatim>\<open>NorrisBot\<close>, the event with the text
  \<^verbatim>\<open>Hello NorrisBot\<close> sent by \<^verbatim>\<open>U999\<close> in \<^verbatim>\<open>C123\<close> satisfies all four, and the source
  rejects it and posts nothing: the text is lowered before the search and the name is not.
\<close>

theorem capitalised_name_event_not_replied:
  "user capitalised_bot = Some capitalised_user \<and> user_id capitalised_user = ''U000'' \<and>
   name capitalised_bot = ''NorrisBot'' \<and>
   kind_and_text capitalised_message \<and> public_channel capitalised_message \<and>
   not_self ''U000'' capitalised_message \<and> mentions_trigger ''NorrisBot'' capitalised_message \<and>
   onMessage_condition capitalised_bot capitalised_message = Inr False \<and>
   onMessage capitalised_bot example_world capitalised_message = (None, example_world)"
proof -
  have low: "toLowerCase ''Hello NorrisBot'' = ''hello norrisbot''"
    "toLowerCase ''NorrisBot'' = ''norrisbot''"
    by (simp_all add: toLowerCase_def toLowerCase_char_def)
  have spec: "kind_and_text capitalised_message \<and> public_channel capitalised_message \<and>
      not_self ''U000'' capitalised_message \<and> mentions_trigger ''NorrisBot'' capitalised_message"
    by (simp add: capitalised_message_def kind_and_text_def public_channel_def not_self_def
        mentions_trigger_def contains_ignoring_case_def low sublist_Cons_right)
  have code: "onMessage_condition capitalised_bot capitalised_message = Inr False"
    by (simp add: onMessage_condition_def isChatMessage_def isChannelConversation_def
        isFromNorrisBot_def isMentioningChuckNorris_def capitalised_bot_def
        capitalised_message_def capitalised_user_def low indexOf_def)
  then have "onMessage capitalised_bot example_world capitalised_message = (None, example_world)"
    by (simp add: onMessage_def)
  with spec code show ?thesis
    by (simp add: capitalised_bot_def capitalised_user_def)
qed

text \<open>
  C6. An event whose sender is the bot's own member id never passes the filter, whatever
  its text, kind or channel: the condition is false, nothing is posted, logged or written,
  and no error is raised.
\<close>

theorem self_authored_never_replied:
  assumes "user self = Some u" and "msg_user m = JStr (user_id u)"
  shows "onMessage_condition self m = Inr False \<and> onMessage self w m = (None, w)"
  using assms
  by (simp add: onMessage_def onMessage_condition_def isFromNorrisBot_def)

theorem self_authored_never_replied_witness:
  "user example_bot = Some example_user \<and>
   msg_user (example_message\<lparr>msg_user := JStr ''U000''\<rparr>) = JStr (user_id example_user) \<and>
   onMessage_condition example_bot (example_message\<lparr>msg_user := JStr ''U000''\<rparr>) = Inr False \<and>
   onMessage example_bot example_world (example_message\<lparr>msg_user := JStr ''U000''\<rparr>) =
     (None, example_world)"
  using self_authored_never_replied
    [of example_bot example_user "example_message\<lparr>msg_user := JStr ''U000''\<rparr>" example_world]
  by (simp add: example_bot_def example_user_def)







text \<open>
  C7. The trigger is to be found in any letter case, the display name included. The
  source lowers the text and searches it for the display name as configured, so a name
  with a capital letter is never found: for the bot named \<^verbatim>\<open>NorrisBot\<close> the text
  \<^verbatim>\<open>Hello NorrisBot\<close> contains the name, in the very case it is configured in, and
  \<^verbatim>\<open>_isMentioningChuckNorris\<close> returns false.
\<close>

theorem capitalised_name_never_matches:
  "isMentioningChuckNorris (example_bot\<lparr>name := ''NorrisBot''\<rparr>)
      (example_message\<lparr>msg_text := JStr ''Hello NorrisBot''\<rparr>) = Inr False \<and>
   contains_ignoring_case ''Hello NorrisBot'' ''NorrisBot'' \<and>
   sublist ''NorrisBot'' ''Hello NorrisBot''"
  by (simp add: isMentioningChuckNorris_def example_message_def example_bot_def indexOf_def
      toLowerCase_def toLowerCase_char_def contains_ignoring_case_def sublist_Cons_right)

subsection \<open>The least used joke\<close>

lemma sort_key_head_least:
  assumes "sort_key f xs = y # ys" and "x \<in> set xs"
  shows "f y \<le> f x"
proof -
  have "sorted (map f (y # ys))" using sorted_sort_key [of f xs] assms(1) by simp
  moreover have "x \<in> set (y # ys)" using set_sort [of f xs] assms by simp
  ultimately show ?thesis by auto
qed

lemma sort_key_head_mem:
  assumes "sort_key f xs = y # ys"
  shows "y \<in> set xs"
  using set_sort [of f xs] assms by auto

lemma in_enumerate0: "(k, j) \<in> set (enumerate 0 js) \<longleftrightarrow> k < length js \<and> js ! k = j"
  by (auto simp: in_set_enumerate_eq)

text \<open>The selected row is a row of the table whose sort key is below every other row's.\<close>

lemma select_least_used_head:
  assumes "js \<noteq> []"
  obtains k j where "select_least_used js rnd = Some j" and "k < length js" and "js ! k = j"
    and "\<And>k'. k' < length js \<Longrightarrow> (used j, rnd k) \<le> (used (js ! k'), rnd k')"
proof -
  let ?f = "\<lambda>(k, j). (used j, rnd k)"
  have "sort_key ?f (enumerate 0 js) \<noteq> []" using assms
    by (metis length_sort length_enumerate length_0_conv)
  then obtain k j ys where s: "sort_key ?f (enumerate 0 js) = (k, j) # ys"
    by (cases "sort_key ?f (enumerate 0 js)") auto
  have sel: "select_least_used js rnd = Some j"
    by (simp add: select_least_used_def order_by_used_random_def s)
  have mem: "k < length js \<and> js ! k = j"
    using sort_key_head_mem [OF s] by (simp add: in_enumerate0)
  have least: "(used j, rnd k) \<le> (used (js ! k'), rnd k')" if "k' < length js" for k'
  proof -
    have "(k', js ! k') \<in> set (enumerate 0 js)" using that by (simp add: in_enumerate0)
    from sort_key_head_least [OF s this] show ?thesis by simp
  qed
  from sel mem least that show ?thesis by blast
qed

lemma select_least_used_min:
  assumes "js \<noteq> []"
  shows "\<exists>j. select_least_used js rnd = Some j \<and> j \<in> set js \<and> used j = Min (used ` set js)"
proof -
  obtain k j where sel: "select_least_used js rnd = Some j" and k: "k < length js" "js ! k = j"
    and least: "\<And>k'. k' < length js \<Longrightarrow> (used j, rnd k) \<le> (used (js ! k'), rnd k')"
    using select_least_used_head [OF assms] by blast
  have jin: "j \<in> set js" using k by auto
  have "used j \<le> used x" if xin: "x \<in> set js" for x
  proof -
    obtain k' where "k' < length js" "js ! k' = x" using xin by (auto simp: in_set_conv_nth)
    with least [of k'] show ?thesis by (auto simp: less_eq_prod_def)
  qed
  then have "used j = Min (used ` set js)"
    using jin by (intro Min_eqI [symmetric]) auto
  with sel jin show ?thesis by blast
qed

text \<open>Every row with the least counter is the one selected under some random draw.\<close>

lemma select_least_used_reachable:
  assumes "j \<in> set js" and "used j = Min (used ` set js)"
  shows "\<exists>rnd. select_least_used js rnd = Some j"
proof -
  obtain i where i: "i < length js" "js ! i = j" using assms(1) by (auto simp: in_set_conv_nth)
  let ?rnd = "\<lambda>k. if k = i then (0::int) else 1"
  have ne: "js \<noteq> []" using assms(1) by auto
  obtain k j' where sel: "select_least_used js ?rnd = Some j'" and k: "k < length js" "js ! k = j'"
    and least: "\<And>k'. k' < length js \<Longrightarrow> (used j', ?rnd k) \<le> (used (js ! k'), ?rnd k')"
    using select_least_used_head [OF ne, of ?rnd] by blast
  have "j' \<in> set js" using k by auto
  then have "Min (used ` set js) \<le> used j'" by (intro Min_le) auto
  then have "used j \<le> used j'" using assms(2) by simp
  moreover have "(used j', ?rnd k) \<le> (used j, 0)" using least [OF i(1)] i(2) by simp
  ultimately have "k = i" by (auto simp: less_eq_prod_def split: if_splits)
  then have "j' = j" using k i by simp
  with sel show ?thesis by blast
qed

text \<open>
  C2. On a non-empty jokes table the query of \<^verbatim>\<open>_replyWithRandomJoke\<close> returns the id
  and text of a row of the table whose counter is the least counter of the table, whatever
  the random values drawn; and among the rows tied for the least counter the random values
  decide: each of them is the one returned under some draw.
\<close>

theorem least_used_joke_selected:
  assumes "js \<noteq> []"
  shows "(\<exists>j. select_least_used js rnd = Some j \<and> j \<in> set js \<and>
              used j = Min (used ` set js) \<and>
              select_id_joke js rnd = Some (joke_id j, joke j)) \<and>
         (\<forall>j\<in>set js. used j = Min (used ` set js) \<longrightarrow>
              (\<exists>rnd'. select_least_used js rnd' = Some j))"
proof -
  obtain j where j: "select_least_used js rnd = Some j" "j \<in> set js"
      "used j = Min (used ` set js)"
    using select_least_used_min [OF assms] by blast
  then have "select_id_joke js rnd = Some (joke_id j, joke j)" by (simp add: select_id_joke_def)
  with j show ?thesis using select_least_used_reachable by blast
qed

lemma tied_jokes_first:
  "select_least_used tied_jokes (\<lambda>k. 0) = Some \<lparr>joke_id = 1, joke = ''J1'', used = 0\<rparr>"
  by (simp add: select_least_used_def order_by_used_random_def tied_jokes_def enumerate_eq_zip
      upt_rec less_eq_prod_def)

lemma tied_jokes_last:
  "select_least_used tied_jokes (\<lambda>k. 7 - int k) = Some \<lparr>joke_id = 3, joke = ''J3'', used = 0\<rparr>"
  by (simp add: select_least_used_def order_by_used_random_def tied_jokes_def enumerate_eq_zip
      upt_rec less_eq_prod_def)

text \<open>
  Three jokes, two of them never served: one draw returns the first, another the third,
  and the joke served five times is returned by neither.
\<close>

theorem least_used_joke_selected_witness:
  "tied_jokes \<noteq> [] \<and> Min (used ` set tied_jokes) = 0 \<and>
   select_id_joke tied_jokes (\<lambda>k. 0) = Some (1, ''J1'') \<and>
   select_id_joke tied_jokes (\<lambda>k. 7 - int k) = Some (3, ''J3'')"
  using least_used_joke_selected [of tied_jokes "\<lambda>k. 0"]
    least_used_joke_selected [of tied_jokes "\<lambda>k. 7 - int k"]
  by (simp add: tied_jokes_first tied_jokes_last select_id_joke_def) (simp add: tied_jokes_def)

subsection \<open>Serving a joke\<close>



text \<open>
  The end-to-end case of the specification: with the jokes J1 (never served) and J2
  (served five times), a qualifying event in the channel \<^verbatim>\<open>C123\<close> has J1 posted to that
  channel and its counter set to one.
\<close>

lemma end_to_end:
  "onMessage example_bot example_world example_message =
     (None, example_world
        \<lparr>store := \<lparr>info = [], jokes = [\<lparr>joke_id = 1, joke = ''J1'', used = 1\<rparr>,
                                        \<lparr>joke_id = 2, joke = ''J2'', used = 5\<rparr>]\<rparr>,
         trace := [PostMessageToChannel ''general'' ''J1'' True, DbRun (UpdateJokeUsed 1)]\<rparr>)"
proof -
  have "onMessage example_bot example_world example_message =
          replyWithRandomJoke example_bot example_world example_message"
    by (simp add: onMessage_def example_condition)
  also have "\<dots> = (None, example_world
        \<lparr>store := \<lparr>info = [], jokes = [\<lparr>joke_id = 1, joke = ''J1'', used = 1\<rparr>,
                                        \<lparr>joke_id = 2, joke = ''J2'', used = 5\<rparr>]\<rparr>,
         trace := [PostMessageToChannel ''general'' ''J1'' True, DbRun (UpdateJokeUsed 1)]\<rparr>)"
    by (simp add: replyWithRandomJoke_def getChannelById_def
        select_id_joke_def select_least_used_def order_by_used_random_def
        example_bot_def example_message_def example_world_def example_channel_def
        example_jokes_def enumerate_eq_zip upt_rec less_eq_prod_def db_run_def emit_def)
  finally show ?thesis .
qed

lemma reply_on_empty_table:
  assumes "db self = Some p" and "get_error w = None" and "jokes (store w) = []"
    and "getChannelById self (msg_channel m) = Some c"
  shows "replyWithRandomJoke self w m =
           (Some (TypeError ''Cannot read property joke of undefined''), w)"
  using assms
  by (simp add: replyWithRandomJoke_def select_id_joke_def select_least_used_def
      order_by_used_random_def)

lemma reply_on_absent_channel:
  assumes "db self = Some p" and "get_error w = None"
    and "getChannelById self (msg_channel m) = None"
  shows "replyWithRandomJoke self w m =
           (Some (TypeError ''Cannot read property name of undefined''), w)"
  using assms by (simp add: replyWithRandomJoke_def)

text \<open>
  C3. With an empty jokes table a qualifying event is to be answered by a logged
  \<^verbatim>\<open>NoJokesAvailable\<close> and no crash. The source does not test the row it is handed: the
  callback reads \<^verbatim>\<open>record.joke\<close> of \<^verbatim>\<open>undefined\<close> and throws a \<^verbatim>\<open>TypeError\<close>. Nothing is
  posted and nothing is logged (the world is unchanged), and the error is not caught.
\<close>

theorem empty_jokes_table_throws:
  "onMessage example_bot jokeless_world example_message =
     (Some (TypeError ''Cannot read property joke of undefined''), jokeless_world)"
proof -
  have "onMessage example_bot jokeless_world example_message =
          replyWithRandomJoke example_bot jokeless_world example_message"
    by (simp add: onMessage_def example_condition)
  also have "\<dots> = (Some (TypeError ''Cannot read property joke of undefined''), jokeless_world)"
    by (rule reply_on_empty_table [where p = "''data/norrisbot.db''" and c = example_channel])
       (simp_all add: example_bot_def example_message_def example_world_def jokeless_world_def
          example_channel_def getChannelById_def)
  finally show ?thesis .
qed

text \<open>
  C9. When the channel of the event is not in the channel list, the reply is to be
  abandoned with a log line and no crash. The source does not test the channel it looked
  up: the callback reads \<^verbatim>\<open>channel.name\<close> of \<^verbatim>\<open>undefined\<close> and throws a \<^verbatim>\<open>TypeError\<close>.
  Nothing is posted and nothing is logged (the world is unchanged), and the error is not
  caught.
\<close>

theorem absent_channel_throws:
  "onMessage example_bot example_world (example_message\<lparr>msg_channel := JStr ''C999''\<rparr>) =
     (Some (TypeError ''Cannot read property name of undefined''), example_world)"
proof -
  let ?m = "example_message\<lparr>msg_channel := JStr ''C999''\<rparr>"
  have "onMessage example_bot example_world ?m = replyWithRandomJoke example_bot example_world ?m"
    by (simp add: onMessage_def example_condition_elsewhere)
  also have "\<dots> = (Some (TypeError ''Cannot read property name of undefined''), example_world)"
    by (rule reply_on_absent_channel [where p = "''data/norrisbot.db''"])
       (simp_all add: example_bot_def example_message_def example_world_def
          example_channel_def getChannelById_def)
  finally show ?thesis .
qed

subsection \<open>Start-up\<close>

lemma select_lastrun_None: "(select_lastrun rows = None) = (''lastrun'' \<notin> fst ` set rows)"
proof -
  have "(filter (\<lambda>(n, v). n = ''lastrun'') rows = []) = (''lastrun'' \<notin> fst ` set rows)"
    by (force simp: filter_empty_conv)
  then show ?thesis
    by (auto simp: select_lastrun_def split: list.splits)
qed

lemma onStart_first_run:
  assumes "existsSync w (dbPath self)" and "get_error w = None"
    and "''lastrun'' \<notin> fst ` set (info (store w))" and "channels self = c # cs"
  shows "onStart self w =
           (Inr ((loadBotUser self)\<lparr>db := Some (dbPath self)\<rparr>),
            w\<lparr>store := (store w)\<lparr>info := info (store w) @ [(''lastrun'', currentTime w)]\<rparr>,
              trace := trace w @
                [PostMessageToChannel (channel_name c) (welcome_text (name self)) True,
                 DbRun (InsertLastrun (currentTime w))]\<rparr>)"
  using assms select_lastrun_None [of "info (store w)"]
  by (simp add: onStart_def connectDb_def loadBotUser_def firstRunCheck_def welcomeMessage_def
      db_run_def emit_def)

lemma onStart_later_run:
  assumes "existsSync w (dbPath self)" and "get_error w = None"
    and "''lastrun'' \<in> fst ` set (info (store w))"
  shows "onStart self w =
           (Inr ((loadBotUser self)\<lparr>db := Some (dbPath self)\<rparr>),
            w\<lparr>store := (store w)\<lparr>info :=
                 map (\<lambda>(n, v). if n = ''lastrun'' then (n, currentTime w) else (n, v))
                   (info (store w))\<rparr>,
              trace := trace w @ [DbRun (UpdateLastrun (currentTime w))]\<rparr>)"
proof -
  obtain v where "select_lastrun (info (store w)) = Some v"
    using assms(3) select_lastrun_None [of "info (store w)"]
    by (cases "select_lastrun (info (store w))") auto
  then show ?thesis using assms(1,2)
    by (simp add: onStart_def connectDb_def loadBotUser_def firstRunCheck_def
        db_run_def emit_def)
qed

text \<open>
  C5. The bot starts on an existing database file whose query succeeds. If the settings
  table has no row named \<^verbatim>\<open>lastrun\<close> and the bot is in at least one channel, the start
  posts the welcome message once, to the first channel, and then inserts the row
  \<^verbatim>\<open>lastrun\<close> with the current time: these are its only two effects. If the table has a
  row named \<^verbatim>\<open>lastrun\<close>, the start posts nothing and runs one update that sets the value
  of that row to the current time.
\<close>

theorem firstRunCheck_welcome_or_heartbeat:
  assumes "existsSync w (dbPath self)" and "get_error w = None"
  shows "(''lastrun'' \<notin> fst ` set (info (store w)) \<and> channels self \<noteq> [] \<longrightarrow>
            onStart self w =
              (Inr ((loadBotUser self)\<lparr>db := Some (dbPath self)\<rparr>),
               w\<lparr>store := (store w)\<lparr>info := info (store w) @ [(''lastrun'', currentTime w)]\<rparr>,
                 trace := trace w @
                   [PostMessageToChannel (channel_name (hd (channels self)))
                      (welcome_text (name self)) True,
                    DbRun (InsertLastrun (currentTime w))]\<rparr>)) \<and>
         (''lastrun'' \<in> fst ` set (info (store w)) \<longrightarrow>
            onStart self w =
              (Inr ((loadBotUser self)\<lparr>db := Some (dbPath self)\<rparr>),
               w\<lparr>store := (store w)\<lparr>info :=
                    map (\<lambda>(n, v). if n = ''lastrun'' then (n, currentTime w) else (n, v))
                      (info (store w))\<rparr>,
                 trace := trace w @ [DbRun (UpdateLastrun (currentTime w))]\<rparr>))"
proof (intro conjI impI)
  assume a: "''lastrun'' \<notin> fst ` set (info (store w)) \<and> channels self \<noteq> []"
  then obtain c cs where c: "channels self = c # cs" by (cases "channels self") auto
  from onStart_first_run [OF assms _ c] a c
  show "onStart self w =
              (Inr ((loadBotUser self)\<lparr>db := Some (dbPath self)\<rparr>),
               w\<lparr>store := (store w)\<lparr>info := info (store w) @ [(''lastrun'', currentTime w)]\<rparr>,
                 trace := trace w @
                   [PostMessageToChannel (channel_name (hd (channels self)))
                      (welcome_text (name self)) True,
                    DbRun (InsertLastrun (currentTime w))]\<rparr>)"
    by simp
next
  assume "''lastrun'' \<in> fst ` set (info (store w))"
  from onStart_later_run [OF assms this]
  show "onStart self w =
              (Inr ((loadBotUser self)\<lparr>db := Some (dbPath self)\<rparr>),
               w\<lparr>store := (store w)\<lparr>info :=
                    map (\<lambda>(n, v). if n = ''lastrun'' then (n, currentTime w) else (n, v))
                      (info (store w))\<rparr>,
                 trace := trace w @ [DbRun (UpdateLastrun (currentTime w))]\<rparr>)" .
qed

text \<open>A first start on an empty settings table, and a later start on a table that has
  the row.\<close>

theorem firstRunCheck_welcome_or_heartbeat_witness:
  "existsSync example_world (dbPath listed_bot) \<and> get_error example_world = None \<and>
   channels listed_bot \<noteq> [] \<and>
   trace (snd (onStart listed_bot example_world)) =
     [PostMessageToChannel ''general'' (welcome_text ''norrisbot'') True,
      DbRun (InsertLastrun ''2016-08-01T12:00:00.000Z'')] \<and>
   info (store (snd (onStart listed_bot example_world))) =
     [(''lastrun'', ''2016-08-01T12:00:00.000Z'')] \<and>
   trace (snd (onStart listed_bot later_world)) =
     [DbRun (UpdateLastrun ''2016-08-01T12:00:00.000Z'')] \<and>
   info (store (snd (onStart listed_bot later_world))) =
     [(''lastrun'', ''2016-08-01T12:00:00.000Z'')]"
  using firstRunCheck_welcome_or_heartbeat [of example_world listed_bot]
    firstRunCheck_welcome_or_heartbeat [of later_world listed_bot]
  by (simp add: listed_bot_def Constructor_def example_settings_def example_world_def
      later_world_def example_channel_def)

lemma loadBotUser_no_match:
  "name self \<notin> user_name ` set (users self) \<Longrightarrow> user (loadBotUser self) = None"
proof -
  assume "name self \<notin> user_name ` set (users self)"
  then have "filter (\<lambda>u. user_name u = name self) (users self) = []"
    by (force simp: filter_empty_conv)
  then show ?thesis by (simp add: loadBotUser_def)
qed

lemma loadBotUser_match:
  "user (loadBotUser self) = Some u \<Longrightarrow> u \<in> set (users self) \<and> user_name u = name self"
proof -
  assume a: "user (loadBotUser self) = Some u"
  then obtain us where "filter (\<lambda>u. user_name u = name self) (users self) = u # us"
    by (auto simp: loadBotUser_def split: list.splits)
  then have "u \<in> set (filter (\<lambda>u. user_name u = name self) (users self))" by simp
  then show ?thesis by simp
qed

text \<open>
  C8. A roster without a member of the bot's name is to stop the start with
  \<^verbatim>\<open>IdentityNotFound\<close>. The source takes the first element of the filtered roster without
  testing it: on a roster that lists only \<^verbatim>\<open>alice\<close> the start of the bot \<^verbatim>\<open>norrisbot\<close>
  completes with \<^verbatim>\<open>this.user\<close> left \<^verbatim>\<open>undefined\<close>, welcome message and \<^verbatim>\<open>lastrun\<close> row
  included, and the first event that reaches the sender test throws a \<^verbatim>\<open>TypeError\<close> on
  \<^verbatim>\<open>this.user.id\<close>.
\<close>

theorem unresolved_identity_proceeds:
  "onStart unlisted_bot example_world =
     (Inr (unlisted_bot\<lparr>db := Some ''data/norrisbot.db''\<rparr>),
      example_world
        \<lparr>store := \<lparr>info = [(''lastrun'', ''2016-08-01T12:00:00.000Z'')], jokes = example_jokes\<rparr>,
         trace := [PostMessageToChannel ''general'' (welcome_text ''norrisbot'') True,
                   DbRun (InsertLastrun ''2016-08-01T12:00:00.000Z'')]\<rparr>) \<and>
   user (unlisted_bot\<lparr>db := Some ''data/norrisbot.db''\<rparr>) = None \<and>
   fst (onMessage (unlisted_bot\<lparr>db := Some ''data/norrisbot.db''\<rparr>) example_world example_message) =
     Some (TypeError ''Cannot read property id of undefined'')"
  by (simp add: onStart_def loadBotUser_def connectDb_def firstRunCheck_def welcomeMessage_def
      select_lastrun_def unlisted_bot_def Constructor_def example_settings_def
      example_world_def example_channel_def
      db_run_def emit_def onMessage_def onMessage_condition_def isChatMessage_def
      isChannelConversation_def isFromNorrisBot_def example_message_def)

end
